theory Spec2Isabelle
  imports Complex_Main
begin

section \<open>The frequency-unit widget of pyfda (\<open>pyfda/input_widgets/freq_units.py\<close>)\<close>

text \<open>
  The widget \<open>FreqUnits\<close> writes a handful of entries of the shared filter dictionary
  \<open>fb.fil[0]\<close> whenever the user selects a frequency unit, edits the sampling frequency,
  changes the frequency range or toggles a button. The dictionary is mutated in place,
  so a method that raises half-way leaves the entries it has already written; every
  method is therefore modelled as a function from the state before the call to the
  state at the moment the call ends, together with the exception it ended with (if any).

  Numbers: Python's floats (and the integer \<open>N_FFT\<close>) are idealised as reals. The only
  arithmetic of the file is \<open>1./x\<close>, \<open>f_max/2.\<close> and a negation, and \<open>1./x\<close> raises
  \<open>ZeroDivisionError\<close> for \<open>x = 0\<close>, which the model keeps as an error branch.
\<close>

subsection \<open>Data\<close>

text \<open>
  The entries of \<open>fb.fil[0]\<close> the widget reads or writes. In \<open>f_S_locked\<close>,
  \<open>None\<close> is Python's \<open>None\<close>.
\<close>

record fil =
  f_S :: real
  f_S_locked :: "real option"
  f_max :: real
  T_S :: real
  f_S_scale :: real
  freq_specs_unit :: string
  freqSpecsRangeType :: string
  freqSpecsRange :: "real list"
  freq_specs_sort :: bool
  plt_fUnit :: string
  plt_tUnit :: string
  plt_fLabel :: string
  plt_tLabel :: string

text \<open>The dictionaries sent through \<open>sig_tx\<close>; the sender is always the module name.\<close>

datatype signal = view_changed string | specs_changed string

text \<open>
  The state a method of the widget acts on: the shared dictionary, extended with the
  attributes of \<open>self\<close> (\<open>spec_edited\<close>, \<open>fs_old\<close>), the state of the Qt child widgets
  the methods read or write, the list of signals emitted so far and the warnings logged.
  \<open>cmbUnits\<close> is the combo box's current index, \<open>cmbFRange\<close> the item data of the
  current entry of the range combo box (what \<open>qget_cmb_box\<close> returns).
\<close>

record state = fil +
  spec_edited :: bool
  fs_old :: real
  ledF_S_text :: string
  ledF_S_visible :: bool
  lblF_S_visible :: bool
  butLock_visible :: bool
  butLock_checked :: bool
  butLock_icon :: string
  cmbUnits :: int
  cmbFRange :: string
  butSort_checked :: bool
  sig_tx :: "signal list"
  warnings :: "string list"

datatype exn = UnboundLocalError | ZeroDivisionError | IndexError | EvalError

text \<open>
  What the file imports from elsewhere and only uses: the configured FFT length
  \<open>params['N_FFT']\<close>, the format \<open>params['FMT'].format\<close>, Python's \<open>str\<close> on a float and
  \<open>safe_eval(text, alt, sign='pos')\<close> of \<open>pyfda.libs.pyfda_lib\<close>, which either returns a
  number or raises. They are parameters of the model.
\<close>

record env =
  N_FFT :: real
  FMT :: "real \<Rightarrow> string"
  py_str :: "real \<Rightarrow> string"
  safe_eval :: "string \<Rightarrow> real \<Rightarrow> exn + real"

definition bs :: string where
  "bs = [CHR 0x5C]"

definition f_units :: "string list" where
  "f_units = [''k'', ''f_S'', ''f_Ny'', ''Hz'', ''kHz'', ''MHz'', ''GHz'']"

definition t_units :: "string list" where
  "t_units = ['''', '''', '''', ''s'', ''ms'', ''$'' @ bs @ ''mu$s'', ''ns'']"

text \<open>\<open>QComboBox.currentText\<close>: the text of the current entry, empty when there is none.\<close>

definition currentText :: "int \<Rightarrow> string" where
  "currentText i = (if 0 \<le> i \<and> i < int (length f_units) then f_units ! nat i else [])"

text \<open>
  The subscript \<open>self.t_units[idx]\<close>: an index from \<open>-len\<close> up to \<open>-1\<close> is taken
  from the back of the list, one outside \<open>-len .. len-1\<close> raises.
\<close>

definition py_index :: "'a list \<Rightarrow> int \<Rightarrow> exn + 'a" where
  "py_index xs i =
     (if 0 \<le> i \<and> i < int (length xs) then Inr (xs ! nat i)
      else if - int (length xs) \<le> i \<and> i < 0 then Inr (xs ! nat (int (length xs) + i))
      else Inl IndexError)"

definition emit :: "signal \<Rightarrow> state \<Rightarrow> state" where
  "emit s w = w\<lparr>sig_tx := sig_tx w @ [s]\<rparr>"

subsection \<open>\<open>_freq_range\<close> (lines 340--365)\<close>

text \<open>
  The argument \<open>emit\<close> is a bool when the method is called from the file and the new
  index (an int) when it runs as the slot of \<open>cmbFRange.currentIndexChanged\<close>.
\<close>

datatype emit_arg = Flag bool | Index int

definition freq_range :: "emit_arg \<Rightarrow> state \<Rightarrow> state" where
  "freq_range emit_a w =
     (let emit_b = (case emit_a of Index _ \<Rightarrow> True | Flag b \<Rightarrow> b);
          rangeType = cmbFRange w;
          w1 = w\<lparr>freqSpecsRangeType := rangeType\<rparr>;
          fmax = f_max w1;
          f_lim = (if rangeType = ''whole'' then [0, fmax]
                   else if rangeType = ''sym'' then [- fmax / 2, fmax / 2]
                   else [0, fmax / 2]);
          w2 = w1\<lparr>freqSpecsRange := f_lim\<rparr>
      in if emit_b then emit (view_changed ''f_range'') w2 else w2)"

text \<open>The range as section 3 of the specification words it.\<close>

definition spec_range :: "string \<Rightarrow> real \<Rightarrow> real list" where
  "spec_range rangeType fmax =
     (if rangeType = ''whole'' then [0, fmax]
      else if rangeType = ''sym'' then [- (fmax / 2), fmax / 2]
      else [0, fmax / 2])"

subsection \<open>\<open>lock_fs\<close> (lines 163--193)\<close>

definition lock_fs :: "state \<Rightarrow> state" where
  "lock_fs w =
     (let w1 = (if butLock_checked w
                then w\<lparr>f_S_locked := Some (f_S w), butLock_icon := '':/lock-locked.svg''\<rparr>
                else w\<lparr>f_S_locked := None, butLock_icon := '':/lock-unlocked.svg''\<rparr>)
      in emit (view_changed ''f_unit'') w1)"

subsection \<open>\<open>_store_sort_flag\<close> (lines 390--397)\<close>

definition store_sort_flag :: "state \<Rightarrow> state" where
  "store_sort_flag w =
     (let w1 = w\<lparr>freq_specs_sort := butSort_checked w\<rparr>
      in if butSort_checked w1 then emit (specs_changed ''f_sort'') w1 else w1)"

subsection \<open>\<open>update_UI\<close> (lines 196--287)\<close>

definition normalized_units :: "string set" where
  "normalized_units = {''f_S'', ''f_Ny'', ''k''}"

text \<open>
  The local \<open>idx\<close> is assigned in the branch of the absolute units only (line 258), and
  line 280 reads it on every path: with a normalized unit selected the call raises
  \<open>UnboundLocalError\<close> there, after \<open>fs_old\<close>, \<open>f_S\<close>, \<open>f_max\<close>, \<open>T_S\<close>, the text of the
  field, \<open>f_S_scale\<close>, \<open>freq_specs_unit\<close> and \<open>plt_fUnit\<close> have been written and before
  the labels, the range and the signal. In the other branch \<open>1./self.fs_old\<close> (line 243)
  raises \<open>ZeroDivisionError\<close> for \<open>fs_old = 0\<close>, after \<open>f_S\<close> and \<open>f_max\<close> have been written.
\<close>

definition update_UI :: "env \<Rightarrow> state \<Rightarrow> exn option \<times> state" where
  "update_UI p w0 =
     (let f_unit = currentText (cmbUnits w0);
          is_normalized_freq = (f_unit \<in> normalized_units);
          w1 = w0\<lparr>ledF_S_visible := \<not> is_normalized_freq,
                  lblF_S_visible := \<not> is_normalized_freq,
                  butLock_visible := \<not> is_normalized_freq\<rparr>;
          plt_f_unit = (if f_unit = ''k'' then ''f_S'' else f_unit)
      in
      if is_normalized_freq then
        (let w2 = w1\<lparr>fs_old := f_S w1\<rparr>;
             w3 = (if f_unit = ''f_S'' then w2\<lparr>f_S := 1, f_max := 1, T_S := 1\<rparr>
                   else if f_unit = ''f_Ny'' then w2\<lparr>f_S := 2, f_max := 2, T_S := 1\<rparr>
                   else w2\<lparr>f_S := 1, T_S := 1, f_max := N_FFT p\<rparr>);
             w4 = w3\<lparr>ledF_S_text := FMT p (f_S w3)\<rparr>;
             w5 = w4\<lparr>f_S_scale := 1, freq_specs_unit := f_unit, plt_fUnit := plt_f_unit\<rparr>
         in (Some UnboundLocalError, w5))
      else
        (let was_normalized = (freq_specs_unit w1 \<in> normalized_units);
             w2 = (if was_normalized then w1\<lparr>f_S := fs_old w1, f_max := fs_old w1\<rparr> else w1)
         in
         if was_normalized \<and> fs_old w2 = 0 then (Some ZeroDivisionError, w2)
         else
           (let w3 = (if was_normalized
                      then w2\<lparr>T_S := 1 / fs_old w2, ledF_S_text := FMT p (f_S w2)\<rparr>
                      else w2);
                scale = (if f_unit = ''Hz'' then 1
                         else if f_unit = ''kHz'' then 1000
                         else if f_unit = ''MHz'' then 1000000
                         else if f_unit = ''GHz'' then 1000000000
                         else 1);
                w4 = (if f_unit \<in> {''Hz'', ''kHz'', ''MHz'', ''GHz''} then w3
                      else w3\<lparr>warnings := warnings w3 @ [''Unknown frequency unit '' @ f_unit]\<rparr>);
                f_label = ''$f$ in '' @ f_unit @ ''$'' @ bs @ ''; '' @ bs @ ''rightarrow$'';
                idx = cmbUnits w4
            in
            case py_index t_units idx of
              Inl e \<Rightarrow> (Some e, w4)
            | Inr t_unit \<Rightarrow>
                (let t_label = ''$t$ in '' @ t_unit @ ''$'' @ bs @ ''; '' @ bs @ ''rightarrow$'';
                     w5 = w4\<lparr>f_S_scale := scale, freq_specs_unit := f_unit,
                             plt_fUnit := plt_f_unit, plt_tUnit := t_unit,
                             plt_fLabel := f_label, plt_tLabel := t_label\<rparr>;
                     w6 = freq_range (Flag False) w5
                 in (None, emit (view_changed ''f_unit'') w6)))))"

subsection \<open>\<open>eventFilter\<close> and its local \<open>_store_entry\<close> (lines 291--337)\<close>

datatype key = Key_Return | Key_Enter | Key_Escape | Key_other

datatype qevent = FocusIn | KeyPress key | FocusOut | Other_event

text \<open>
  \<open>source\<close> is the line edit \<open>ledF_S\<close>, the only object the filter is installed on and
  the only one named \<open>f_S\<close>. Nothing in the method catches an exception.
\<close>

definition store_entry :: "env \<Rightarrow> state \<Rightarrow> exn option \<times> state" where
  "store_entry p w =
     (if spec_edited w then
        (case safe_eval p (ledF_S_text w) (f_S w) of
           Inl e \<Rightarrow> (Some e, w)
         | Inr v \<Rightarrow>
             (let w1 = w\<lparr>f_S := v\<rparr>
              in if f_S w1 = 0 then (Some ZeroDivisionError, w1)
                 else
                   (let w2 = w1\<lparr>T_S := 1 / f_S w1\<rparr>;
                        w3 = w2\<lparr>f_max := f_S w2\<rparr>;
                        w4 = freq_range (Flag False) w3;
                        w5 = emit (view_changed ''f_S'') w4
                    in (None, w5\<lparr>spec_edited := False\<rparr>))))
      else (None, w))"

definition eventFilter :: "env \<Rightarrow> string \<Rightarrow> qevent \<Rightarrow> state \<Rightarrow> exn option \<times> state" where
  "eventFilter p objectName event w =
     (if objectName = ''f_S'' then
        (case event of
           FocusIn \<Rightarrow> (None, w\<lparr>spec_edited := False, ledF_S_text := py_str p (f_S w)\<rparr>)
         | KeyPress k \<Rightarrow>
             (let w1 = w\<lparr>spec_edited := True\<rparr>
              in if k = Key_Return \<or> k = Key_Enter then store_entry p w1
                 else if k = Key_Escape
                 then (None, w1\<lparr>spec_edited := False, ledF_S_text := py_str p (f_S w1)\<rparr>)
                 else (None, w1))
         | FocusOut \<Rightarrow>
             (case store_entry p w of
                (Some e, w1) \<Rightarrow> (Some e, w1)
              | (None, w1) \<Rightarrow> (None, w1\<lparr>ledF_S_text := FMT p (f_S w1)\<rparr>))
         | Other_event \<Rightarrow> (None, w))
      else (None, w))"

subsection \<open>The connections made in \<open>_construct_UI\<close> (lines 154--157)\<close>

text \<open>
  A signal of a child widget and the slot it is connected to. The combo boxes emit
  \<open>currentIndexChanged\<close> after the current entry has changed; a checkable button
  toggles before it emits \<open>clicked\<close>. \<open>update_UI\<close> and \<open>_store_sort_flag\<close> take no
  argument, \<open>_freq_range\<close> receives the new index as \<open>emit\<close>.
\<close>

datatype ui_event =
    cmbUnits_currentIndexChanged int
  | butLock_clicked
  | cmbFRange_currentIndexChanged int string
  | butSort_clicked

fun slot :: "env \<Rightarrow> ui_event \<Rightarrow> state \<Rightarrow> exn option \<times> state" where
  "slot p (cmbUnits_currentIndexChanged i) w = update_UI p (w\<lparr>cmbUnits := i\<rparr>)"
| "slot p butLock_clicked w = update_UI p (w\<lparr>butLock_checked := \<not> butLock_checked w\<rparr>)"
| "slot p (cmbFRange_currentIndexChanged i d) w =
     (None, freq_range (Index i) (w\<lparr>cmbFRange := d\<rparr>))"
| "slot p butSort_clicked w =
     (None, store_sort_flag (w\<lparr>butSort_checked := \<not> butSort_checked w\<rparr>))"

text \<open>
  Every way the methods of the widget are entered: a connected signal, an event of
  the line edit passing the filter, or a call of \<open>lock_fs\<close> (which nothing in the
  file calls) with the lock button in the given position.
\<close>

datatype operation = Signal ui_event | Event qevent | Lock bool

fun run :: "env \<Rightarrow> operation \<Rightarrow> state \<Rightarrow> exn option \<times> state" where
  "run p (Signal ev) w = slot p ev w"
| "run p (Event e) w = eventFilter p ''f_S'' e w"
| "run p (Lock b) w = (None, lock_fs (w\<lparr>butLock_checked := b\<rparr>))"

subsection \<open>Predicates used to state the properties\<close>

text \<open>\<open>T_S == 1/f_S\<close> whenever \<open>f_S\<close> is nonzero.\<close>

definition T_S_inv :: "state \<Rightarrow> bool" where
  "T_S_inv w = (f_S w \<noteq> 0 \<longrightarrow> T_S w = 1 / f_S w)"

text \<open>The two ways a call of \<open>safe_eval\<close> can end.\<close>

definition accepted :: "exn + real \<Rightarrow> bool" where
  "accepted r = (case r of Inl _ \<Rightarrow> False | Inr _ \<Rightarrow> True)"

definition raised :: "exn + real \<Rightarrow> bool" where
  "raised r = (case r of Inl _ \<Rightarrow> True | Inr _ \<Rightarrow> False)"

text \<open>
  The events of the line edit on which \<open>eventFilter\<close> enters the body of
  \<open>_store_entry\<close>: Return or Enter (the flag is set just before), or a loss of focus
  with the flag \<open>spec_edited\<close> set.
\<close>

fun is_commit :: "qevent \<Rightarrow> state \<Rightarrow> bool" where
  "is_commit (KeyPress k) w = (k = Key_Return \<or> k = Key_Enter)"
| "is_commit FocusOut w = spec_edited w"
| "is_commit _ w = False"

text \<open>The operations that run \<open>update_UI\<close> with the unit \<open>f_Ny\<close> selected.\<close>

fun selects_f_Ny :: "operation \<Rightarrow> state \<Rightarrow> bool" where
  "selects_f_Ny (Signal (cmbUnits_currentIndexChanged i)) w = (currentText i = ''f_Ny'')"
| "selects_f_Ny (Signal butLock_clicked) w = (currentText (cmbUnits w) = ''f_Ny'')"
| "selects_f_Ny _ w = False"

text \<open>
  The operations that reach an assignment to \<open>T_S\<close> (or stop at the division by zero
  in front of it): \<open>update_UI\<close> with a normalized unit selected or stored, and a commit
  of the field for which \<open>safe_eval\<close> returns.
\<close>

fun rewrites_T_S :: "env \<Rightarrow> operation \<Rightarrow> state \<Rightarrow> bool" where
  "rewrites_T_S p (Signal (cmbUnits_currentIndexChanged i)) w =
     (currentText i \<in> normalized_units \<or> freq_specs_unit w \<in> normalized_units)"
| "rewrites_T_S p (Signal butLock_clicked) w =
     (currentText (cmbUnits w) \<in> normalized_units \<or> freq_specs_unit w \<in> normalized_units)"
| "rewrites_T_S p (Event e) w =
     (is_commit e w \<and> accepted (safe_eval p (ledF_S_text w) (f_S w)))"
| "rewrites_T_S p _ w = False"

subsection \<open>Concrete inputs\<close>

text \<open>
  An evaluator that accepts the text \<open>48000\<close> and returns its second argument, the
  fallback, for every other text; and one that raises instead.
\<close>

definition env0 :: env where
  "env0 = \<lparr>N_FFT = 2048, FMT = (\<lambda>x. ''''), py_str = (\<lambda>x. ''''),
           safe_eval = (\<lambda>t alt. if t = ''48000'' then Inr 48000 else Inr alt)\<rparr>"

definition env_raise :: env where
  "env_raise = \<lparr>N_FFT = 2048, FMT = (\<lambda>x. ''''), py_str = (\<lambda>x. ''''),
           safe_eval = (\<lambda>t alt. if t = ''48000'' then Inr 48000 else Inl EvalError)\<rparr>"

text \<open>A dictionary with \<open>f_S\<close> = 1000 Hz and the unit \<open>Hz\<close> selected.\<close>

definition state0 :: state where
  "state0 = \<lparr>f_S = 1000, f_S_locked = None, f_max = 1000, T_S = 1 / 1000, f_S_scale = 1,
     freq_specs_unit = ''Hz'', freqSpecsRangeType = ''half'', freqSpecsRange = [0, 500],
     freq_specs_sort = True, plt_fUnit = ''Hz'', plt_tUnit = ''s'',
     plt_fLabel = '''', plt_tLabel = '''',
     spec_edited = False, fs_old = 1, ledF_S_text = ''1000'', ledF_S_visible = True,
     lblF_S_visible = True, butLock_visible = True, butLock_checked = True,
     butLock_icon = '':/lock-locked.svg'', cmbUnits = 3, cmbFRange = ''half'',
     butSort_checked = True, sig_tx = [], warnings = []\<rparr>"

text \<open>
  The dictionary of a filter stored with the unit \<open>k\<close> (\<open>f_S = 1\<close>, \<open>f_max = N_FFT\<close>),
  with the line edit shown and holding an edited text.
\<close>

definition state_k :: state where
  "state_k = \<lparr>f_S = 1, f_S_locked = None, f_max = 2048, T_S = 1, f_S_scale = 1,
     freq_specs_unit = ''k'', freqSpecsRangeType = ''half'', freqSpecsRange = [0, 1024],
     freq_specs_sort = True, plt_fUnit = ''f_S'', plt_tUnit = '''',
     plt_fLabel = '''', plt_tLabel = '''',
     spec_edited = True, fs_old = 1000, ledF_S_text = ''abc'', ledF_S_visible = True,
     lblF_S_visible = True, butLock_visible = True, butLock_checked = True,
     butLock_icon = '':/lock-locked.svg'', cmbUnits = 0, cmbFRange = ''half'',
     butSort_checked = True, sig_tx = [], warnings = []\<rparr>"

section \<open>Properties\<close>

subsection \<open>What \<open>update_UI\<close> leaves in the entries of the sampling frequency\<close>

lemma currentText_simps:
  "currentText 0 = ''k''" "currentText 1 = ''f_S''" "currentText 2 = ''f_Ny''"
  "currentText 3 = ''Hz''" "currentText 4 = ''kHz''" "currentText 5 = ''MHz''"
  "currentText 6 = ''GHz''"
  by (simp_all add: currentText_def f_units_def)

lemma normalized_index: "i \<in> {0, 1, 2} \<Longrightarrow> currentText i \<in> normalized_units"
  by (auto simp add: currentText_simps normalized_units_def)

lemma absolute_index:
  "j \<in> {3, 4, 5, 6} \<Longrightarrow> currentText j \<notin> normalized_units \<and> (\<exists>t. py_index t_units j = Inr t)"
  by (auto simp add: currentText_simps normalized_units_def py_index_def t_units_def)

lemma update_UI_fst:
  "fst (update_UI p w) =
     (if currentText (cmbUnits w) \<in> normalized_units then Some UnboundLocalError
      else if freq_specs_unit w \<in> normalized_units \<and> fs_old w = 0 then Some ZeroDivisionError
      else (case py_index t_units (cmbUnits w) of Inl e \<Rightarrow> Some e | Inr t \<Rightarrow> None))"
  by (simp add: update_UI_def Let_def split: sum.split)

lemma update_UI_f_S:
  "f_S (snd (update_UI p w)) =
     (if currentText (cmbUnits w) \<in> normalized_units
      then (if currentText (cmbUnits w) = ''f_Ny'' then 2 else 1)
      else if freq_specs_unit w \<in> normalized_units then fs_old w else f_S w)"
  by (simp add: update_UI_def freq_range_def emit_def Let_def split: sum.split)

lemma update_UI_f_max:
  "f_max (snd (update_UI p w)) =
     (if currentText (cmbUnits w) \<in> normalized_units
      then (if currentText (cmbUnits w) = ''f_S'' then 1
            else if currentText (cmbUnits w) = ''f_Ny'' then 2 else N_FFT p)
      else if freq_specs_unit w \<in> normalized_units then fs_old w else f_max w)"
  by (simp add: update_UI_def freq_range_def emit_def Let_def split: sum.split)

lemma update_UI_T_S:
  "T_S (snd (update_UI p w)) =
     (if currentText (cmbUnits w) \<in> normalized_units then 1
      else if freq_specs_unit w \<in> normalized_units \<and> fs_old w \<noteq> 0 then 1 / fs_old w
      else T_S w)"
  by (simp add: update_UI_def freq_range_def emit_def Let_def split: sum.split)

lemma update_UI_fs_old:
  "fs_old (snd (update_UI p w)) =
     (if currentText (cmbUnits w) \<in> normalized_units then f_S w else fs_old w)"
  by (simp add: update_UI_def freq_range_def emit_def Let_def split: sum.split)

lemma update_UI_freq_specs_unit:
  "currentText (cmbUnits w) \<in> normalized_units \<Longrightarrow>
   freq_specs_unit (snd (update_UI p w)) = currentText (cmbUnits w)"
  by (simp add: update_UI_def Let_def)

lemma update_UI_f_S_locked: "f_S_locked (snd (update_UI p w)) = f_S_locked w"
  by (simp add: update_UI_def freq_range_def emit_def Let_def split: sum.split)

text \<open>
  With a normalized unit selected the call ends in \<open>UnboundLocalError\<close>: neither the
  range nor the labels are written and no signal is emitted.
\<close>

lemma update_UI_normalized_raises:
  assumes "currentText (cmbUnits w) \<in> normalized_units"
  shows "fst (update_UI p w) = Some UnboundLocalError \<and>
         sig_tx (snd (update_UI p w)) = sig_tx w \<and>
         freqSpecsRange (snd (update_UI p w)) = freqSpecsRange w \<and>
         plt_fLabel (snd (update_UI p w)) = plt_fLabel w \<and>
         plt_tLabel (snd (update_UI p w)) = plt_tLabel w"
  using assms by (simp add: update_UI_def Let_def)

subsection \<open>Unit selection\<close>

text \<open>
  Claim C1. Whenever \<open>update_UI\<close> runs with the unit \<open>f_S\<close> selected, it leaves
  \<open>(f_S, f_max, T_S) = (1, 1, 1)\<close> in the shared dictionary; with \<open>f_Ny\<close> selected
  \<open>(2, 2, 1)\<close>; with \<open>k\<close> selected \<open>(1, N_FFT, 1)\<close>, where \<open>N_FFT\<close> is the configured
  FFT length.
\<close>

theorem update_UI_normalized_fields:
  "(currentText (cmbUnits w) = ''f_S'' \<longrightarrow>
      (f_S (snd (update_UI p w)), f_max (snd (update_UI p w)), T_S (snd (update_UI p w)))
        = (1, 1, 1)) \<and>
   (currentText (cmbUnits w) = ''f_Ny'' \<longrightarrow>
      (f_S (snd (update_UI p w)), f_max (snd (update_UI p w)), T_S (snd (update_UI p w)))
        = (2, 2, 1)) \<and>
   (currentText (cmbUnits w) = ''k'' \<longrightarrow>
      (f_S (snd (update_UI p w)), f_max (snd (update_UI p w)), T_S (snd (update_UI p w)))
        = (1, N_FFT p, 1))"
  by (simp add: update_UI_def normalized_units_def Let_def)

theorem update_UI_normalized_fields_witness:
  "currentText (cmbUnits (state0\<lparr>cmbUnits := 1\<rparr>)) = ''f_S'' \<and>
   (f_S (snd (update_UI env0 (state0\<lparr>cmbUnits := 1\<rparr>))),
    f_max (snd (update_UI env0 (state0\<lparr>cmbUnits := 1\<rparr>))),
    T_S (snd (update_UI env0 (state0\<lparr>cmbUnits := 1\<rparr>)))) = (1, 1, 1) \<and>
   currentText (cmbUnits (state0\<lparr>cmbUnits := 2\<rparr>)) = ''f_Ny'' \<and>
   (f_S (snd (update_UI env0 (state0\<lparr>cmbUnits := 2\<rparr>))),
    f_max (snd (update_UI env0 (state0\<lparr>cmbUnits := 2\<rparr>))),
    T_S (snd (update_UI env0 (state0\<lparr>cmbUnits := 2\<rparr>)))) = (2, 2, 1) \<and>
   currentText (cmbUnits (state0\<lparr>cmbUnits := 0\<rparr>)) = ''k'' \<and>
   (f_S (snd (update_UI env0 (state0\<lparr>cmbUnits := 0\<rparr>))),
    f_max (snd (update_UI env0 (state0\<lparr>cmbUnits := 0\<rparr>))),
    T_S (snd (update_UI env0 (state0\<lparr>cmbUnits := 0\<rparr>)))) = (1, 2048, 1)"
  using update_UI_normalized_fields [of "state0\<lparr>cmbUnits := 1\<rparr>" env0]
    update_UI_normalized_fields [of "state0\<lparr>cmbUnits := 2\<rparr>" env0]
    update_UI_normalized_fields [of "state0\<lparr>cmbUnits := 0\<rparr>" env0]
  by (simp add: currentText_simps env0_def)

subsection \<open>Frequency range\<close>

text \<open>
  Claim C2. For every range type and every \<open>f_max\<close>, after \<open>_freq_range\<close> has run,
  \<open>freqSpecsRange\<close> is \<open>[0, f_max]\<close> for the type \<open>whole\<close>, \<open>[-f_max/2, f_max/2]\<close> for
  \<open>sym\<close> and \<open>[0, f_max/2]\<close> for every other type: the function of the range type and
  \<open>f_max\<close> that the specification gives, with whatever value \<open>f_max\<close> holds, which the
  call does not change.
\<close>

theorem freq_range_deterministic:
  "freqSpecsRangeType (freq_range e w) = cmbFRange w \<and>
   f_max (freq_range e w) = f_max w \<and>
   freqSpecsRange (freq_range e w) = spec_range (cmbFRange w) (f_max w) \<and>
   freqSpecsRange (freq_range e w) =
     (if freqSpecsRangeType (freq_range e w) = ''whole'' then [0, f_max (freq_range e w)]
      else if freqSpecsRangeType (freq_range e w) = ''sym''
           then [- f_max (freq_range e w) / 2, f_max (freq_range e w) / 2]
      else [0, f_max (freq_range e w) / 2])"
  by (simp add: freq_range_def spec_range_def emit_def Let_def split: emit_arg.split)

theorem freq_range_deterministic_witness:
  "freqSpecsRange (freq_range (Index 2) (state0\<lparr>cmbFRange := ''sym''\<rparr>)) = [- 500, 500] \<and>
   freqSpecsRange (freq_range (Index 1) (state0\<lparr>cmbFRange := ''whole''\<rparr>)) = [0, 1000] \<and>
   freqSpecsRange (freq_range (Flag False) state0) = [0, 500]"
  using freq_range_deterministic [of "Index 2" "state0\<lparr>cmbFRange := ''sym''\<rparr>"]
    freq_range_deterministic [of "Index 1" "state0\<lparr>cmbFRange := ''whole''\<rparr>"]
    freq_range_deterministic [of "Flag False" state0]
  by (simp add: state0_def spec_range_def)

subsection \<open>Lock and sort buttons\<close>

text \<open>
  Claim C7. \<open>lock_fs\<close> with the lock button checked copies the current \<open>f_S\<close> into
  \<open>f_S_locked\<close>, with the button unchecked it sets \<open>f_S_locked\<close> to \<open>None\<close>; either way it
  emits one notification \<open>view_changed: f_unit\<close> and leaves \<open>f_S\<close> alone. Engaging the
  lock and releasing it again leaves \<open>f_S\<close> unchanged and \<open>f_S_locked\<close> at \<open>None\<close>.
\<close>

theorem lock_fs_toggle:
  "(butLock_checked w \<longrightarrow> f_S_locked (lock_fs w) = Some (f_S w)) \<and>
   (\<not> butLock_checked w \<longrightarrow> f_S_locked (lock_fs w) = None) \<and>
   sig_tx (lock_fs w) = sig_tx w @ [view_changed ''f_unit''] \<and>
   f_S (lock_fs w) = f_S w \<and>
   f_S_locked (lock_fs (w\<lparr>butLock_checked := True\<rparr>)) = Some (f_S w) \<and>
   f_S (lock_fs ((lock_fs (w\<lparr>butLock_checked := True\<rparr>))\<lparr>butLock_checked := False\<rparr>)) = f_S w \<and>
   f_S_locked (lock_fs ((lock_fs (w\<lparr>butLock_checked := True\<rparr>))\<lparr>butLock_checked := False\<rparr>))
     = None"
  by (simp add: lock_fs_def emit_def Let_def)

theorem lock_fs_toggle_witness:
  "butLock_checked state0 \<and> f_S_locked (lock_fs state0) = Some 1000 \<and>
   \<not> butLock_checked (state0\<lparr>butLock_checked := False\<rparr>) \<and>
   f_S_locked (lock_fs (state0\<lparr>butLock_checked := False\<rparr>)) = None \<and>
   sig_tx (lock_fs state0) = [view_changed ''f_unit''] \<and>
   f_S (lock_fs ((lock_fs (state0\<lparr>butLock_checked := True\<rparr>))\<lparr>butLock_checked := False\<rparr>))
     = 1000"
  using lock_fs_toggle [of state0] lock_fs_toggle [of "state0\<lparr>butLock_checked := False\<rparr>"]
  by (simp add: state0_def)

text \<open>
  Claim C8. \<open>_store_sort_flag\<close> always writes the state of the sort button into
  \<open>freq_specs_sort\<close>; it emits one notification \<open>specs_changed: f_sort\<close> when that value
  is true and nothing when it is false.
\<close>

theorem store_sort_flag_asymmetric:
  "freq_specs_sort (store_sort_flag w) = butSort_checked w \<and>
   (butSort_checked w \<longrightarrow> sig_tx (store_sort_flag w) = sig_tx w @ [specs_changed ''f_sort'']) \<and>
   (\<not> butSort_checked w \<longrightarrow> sig_tx (store_sort_flag w) = sig_tx w) \<and>
   (specs_changed ''f_sort'' \<in> set (drop (length (sig_tx w)) (sig_tx (store_sort_flag w)))
      \<longleftrightarrow> butSort_checked w)"
  by (simp add: store_sort_flag_def emit_def Let_def)

theorem store_sort_flag_asymmetric_witness:
  "butSort_checked state0 \<and> freq_specs_sort (store_sort_flag state0) \<and>
   sig_tx (store_sort_flag state0) = [specs_changed ''f_sort''] \<and>
   \<not> butSort_checked (state0\<lparr>butSort_checked := False\<rparr>) \<and>
   \<not> freq_specs_sort (store_sort_flag (state0\<lparr>butSort_checked := False\<rparr>)) \<and>
   sig_tx (store_sort_flag (state0\<lparr>butSort_checked := False\<rparr>)) = []"
  using store_sort_flag_asymmetric [of state0]
    store_sort_flag_asymmetric [of "state0\<lparr>butSort_checked := False\<rparr>"]
  by (simp add: state0_def)

text \<open>
  Claim C9. The click of the lock button is connected to \<open>update_UI\<close>, and no slot
  connected in \<open>_construct_UI\<close> calls \<open>lock_fs\<close>: whatever signal arrives, and in
  particular on every click of the lock button, \<open>f_S_locked\<close> keeps its value.
\<close>

theorem lock_click_keeps_f_S_locked:
  "slot p butLock_clicked w = update_UI p (w\<lparr>butLock_checked := \<not> butLock_checked w\<rparr>) \<and>
   f_S_locked (snd (slot p butLock_clicked w)) = f_S_locked w \<and>
   f_S_locked (snd (slot p ev w)) = f_S_locked w"
  by (cases ev)
     (simp_all add: update_UI_f_S_locked freq_range_def store_sort_flag_def emit_def Let_def
        split: emit_arg.split)

theorem lock_click_keeps_f_S_locked_witness:
  "f_S_locked (snd (slot env0 butLock_clicked state0)) = None \<and>
   f_S_locked (snd (slot env0 butLock_clicked (state0\<lparr>f_S_locked := Some 44100\<rparr>))) = Some 44100"
  using lock_click_keeps_f_S_locked [of env0 state0 butLock_clicked]
    lock_click_keeps_f_S_locked [of env0 "state0\<lparr>f_S_locked := Some 44100\<rparr>" butLock_clicked]
  by (simp add: state0_def)

subsection \<open>Returning from a normalized unit\<close>

text \<open>
  Claim C6. From any state with sampling frequency \<open>f\<close> (nonzero, as a sampling
  frequency is), selecting a normalized unit (\<open>k\<close>, \<open>f_S\<close> or \<open>f_Ny\<close>) stores \<open>f\<close> in
  \<open>fs_old\<close>, and selecting an absolute unit (\<open>Hz\<close>, \<open>kHz\<close>, \<open>MHz\<close>, \<open>GHz\<close>) afterwards
  restores \<open>f_S = f\<close>, with \<open>f_max = f\<close> and \<open>T_S = 1/f\<close>, and completes without an
  exception.
\<close>

theorem unit_round_trip_restores_f_S:
  assumes "i \<in> {0, 1, 2}" and "j \<in> {3, 4, 5, 6}" and "f_S w \<noteq> 0"
  shows "fst (slot p (cmbUnits_currentIndexChanged j)
                (snd (slot p (cmbUnits_currentIndexChanged i) w))) = None \<and>
         fs_old (snd (slot p (cmbUnits_currentIndexChanged i) w)) = f_S w \<and>
         f_S (snd (slot p (cmbUnits_currentIndexChanged j)
                (snd (slot p (cmbUnits_currentIndexChanged i) w)))) = f_S w \<and>
         f_max (snd (slot p (cmbUnits_currentIndexChanged j)
                (snd (slot p (cmbUnits_currentIndexChanged i) w)))) = f_S w \<and>
         T_S (snd (slot p (cmbUnits_currentIndexChanged j)
                (snd (slot p (cmbUnits_currentIndexChanged i) w)))) = 1 / f_S w"
proof -
  let ?w1 = "snd (update_UI p (w\<lparr>cmbUnits := i\<rparr>))"
  from assms(1) have ni: "currentText i \<in> normalized_units" by (rule normalized_index)
  from assms(2) obtain t
    where aj: "currentText j \<notin> normalized_units" and tj: "py_index t_units j = Inr t"
    using absolute_index by blast
  from ni have old: "fs_old ?w1 = f_S w" by (simp add: update_UI_fs_old)
  from ni have unit: "freq_specs_unit ?w1 \<in> normalized_units"
    by (simp add: update_UI_freq_specs_unit)
  have "fst (update_UI p (?w1\<lparr>cmbUnits := j\<rparr>)) = None"
    using aj tj old unit assms(3) by (simp add: update_UI_fst)
  moreover have "f_S (snd (update_UI p (?w1\<lparr>cmbUnits := j\<rparr>))) = f_S w"
    using aj old unit by (simp add: update_UI_f_S)
  moreover have "f_max (snd (update_UI p (?w1\<lparr>cmbUnits := j\<rparr>))) = f_S w"
    using aj old unit by (simp add: update_UI_f_max)
  moreover have "T_S (snd (update_UI p (?w1\<lparr>cmbUnits := j\<rparr>))) = 1 / f_S w"
    using aj old unit assms(3) by (simp add: update_UI_T_S)
  ultimately show ?thesis using old by simp
qed

theorem unit_round_trip_restores_f_S_witness:
  "(0::int) \<in> {0, 1, 2} \<and> (3::int) \<in> {3, 4, 5, 6} \<and> f_S state0 \<noteq> 0 \<and>
   f_S (snd (slot env0 (cmbUnits_currentIndexChanged 0) state0)) = 1 \<and>
   f_max (snd (slot env0 (cmbUnits_currentIndexChanged 0) state0)) = 2048 \<and>
   fst (slot env0 (cmbUnits_currentIndexChanged 3)
         (snd (slot env0 (cmbUnits_currentIndexChanged 0) state0))) = None \<and>
   f_S (snd (slot env0 (cmbUnits_currentIndexChanged 3)
         (snd (slot env0 (cmbUnits_currentIndexChanged 0) state0)))) = 1000 \<and>
   f_max (snd (slot env0 (cmbUnits_currentIndexChanged 3)
         (snd (slot env0 (cmbUnits_currentIndexChanged 0) state0)))) = 1000 \<and>
   T_S (snd (slot env0 (cmbUnits_currentIndexChanged 3)
         (snd (slot env0 (cmbUnits_currentIndexChanged 0) state0)))) = 1 / 1000"
  using unit_round_trip_restores_f_S [of 0 3 state0 env0]
  by (simp add: state0_def env0_def update_UI_f_S update_UI_f_max currentText_simps
        normalized_units_def)

text \<open>
  Claim C10. Every selection of a normalized unit overwrites \<open>fs_old\<close> with the
  \<open>f_S\<close> of that moment. So after selecting a normalized unit A, then another
  normalized unit B, then an absolute unit, \<open>f_S\<close> is the fixed value that A assigned
  (2 for \<open>f_Ny\<close>, 1 for \<open>f_S\<close> and \<open>k\<close>), and not the sampling frequency of the start
  unless that happened to be this value.
\<close>

theorem second_normalized_unit_overwrites_fs_old:
  assumes "a \<in> {0, 1, 2}" and "b \<in> {0, 1, 2}" and "a \<noteq> b" and "j \<in> {3, 4, 5, 6}"
  shows "fs_old (snd (slot p (cmbUnits_currentIndexChanged b)
                   (snd (slot p (cmbUnits_currentIndexChanged a) w))))
           = f_S (snd (slot p (cmbUnits_currentIndexChanged a) w)) \<and>
         f_S (snd (slot p (cmbUnits_currentIndexChanged a) w))
           = (if currentText a = ''f_Ny'' then 2 else 1) \<and>
         f_S (snd (slot p (cmbUnits_currentIndexChanged j)
               (snd (slot p (cmbUnits_currentIndexChanged b)
                 (snd (slot p (cmbUnits_currentIndexChanged a) w))))))
           = (if currentText a = ''f_Ny'' then 2 else 1) \<and>
         (f_S w \<noteq> (if currentText a = ''f_Ny'' then 2 else 1) \<longrightarrow>
          f_S (snd (slot p (cmbUnits_currentIndexChanged j)
                (snd (slot p (cmbUnits_currentIndexChanged b)
                  (snd (slot p (cmbUnits_currentIndexChanged a) w))))))
           \<noteq> f_S w)"
proof -
  let ?w1 = "snd (update_UI p (w\<lparr>cmbUnits := a\<rparr>))"
  let ?w2 = "snd (update_UI p (?w1\<lparr>cmbUnits := b\<rparr>))"
  let ?v = "if currentText a = ''f_Ny'' then 2 else (1::real)"
  from assms(1) have na: "currentText a \<in> normalized_units" by (rule normalized_index)
  from assms(2) have nb: "currentText b \<in> normalized_units" by (rule normalized_index)
  from assms(4) have aj: "currentText j \<notin> normalized_units"
    using absolute_index by blast
  from na have fa: "f_S ?w1 = ?v" by (simp add: update_UI_f_S)
  from nb have old: "fs_old ?w2 = f_S ?w1" by (simp add: update_UI_fs_old)
  from nb have unit: "freq_specs_unit ?w2 \<in> normalized_units"
    by (simp add: update_UI_freq_specs_unit)
  have "f_S (snd (update_UI p (?w2\<lparr>cmbUnits := j\<rparr>))) = fs_old ?w2"
    using aj unit by (simp add: update_UI_f_S)
  with old fa have "f_S (snd (update_UI p (?w2\<lparr>cmbUnits := j\<rparr>))) = ?v" by simp
  with old fa show ?thesis by simp
qed

theorem second_normalized_unit_overwrites_fs_old_witness:
  "(2::int) \<in> {0, 1, 2} \<and> (0::int) \<in> {0, 1, 2} \<and> (2::int) \<noteq> 0 \<and> (3::int) \<in> {3, 4, 5, 6} \<and>
   f_S state0 = 1000 \<and>
   f_S (snd (slot env0 (cmbUnits_currentIndexChanged 3)
         (snd (slot env0 (cmbUnits_currentIndexChanged 0)
           (snd (slot env0 (cmbUnits_currentIndexChanged 2) state0)))))) = 2"
  using second_normalized_unit_overwrites_fs_old [of 2 0 3 env0 state0]
  by (simp add: state0_def currentText_simps)

subsection \<open>Committing the sampling-frequency field\<close>

text \<open>
  Claim C3. When \<open>safe_eval\<close> accepts the text of the field as a positive value \<open>v\<close>,
  a commit (Return, Enter, or a loss of focus with the edited flag set) writes
  \<open>f_S = v\<close>, \<open>T_S = 1/f_S\<close> and \<open>f_max = f_S\<close>, recomputes the range, and emits exactly
  one notification, \<open>view_changed: f_S\<close>, and none for the range.
\<close>

theorem commit_accepted:
  assumes "is_commit ev w"
    and "safe_eval p (ledF_S_text w) (f_S w) = Inr v" and "0 < v"
  shows "fst (eventFilter p ''f_S'' ev w) = None \<and>
         f_S (snd (eventFilter p ''f_S'' ev w)) = v \<and>
         T_S (snd (eventFilter p ''f_S'' ev w)) = 1 / f_S (snd (eventFilter p ''f_S'' ev w)) \<and>
         f_max (snd (eventFilter p ''f_S'' ev w)) = f_S (snd (eventFilter p ''f_S'' ev w)) \<and>
         freqSpecsRangeType (snd (eventFilter p ''f_S'' ev w)) = cmbFRange w \<and>
         freqSpecsRange (snd (eventFilter p ''f_S'' ev w)) = spec_range (cmbFRange w) v \<and>
         sig_tx (snd (eventFilter p ''f_S'' ev w)) = sig_tx w @ [view_changed ''f_S'']"
  using assms
  by (cases ev)
     (auto simp add: eventFilter_def store_entry_def freq_range_def spec_range_def emit_def
        Let_def)

theorem commit_accepted_witness:
  "is_commit (KeyPress Key_Return) (state0\<lparr>ledF_S_text := ''48000''\<rparr>) \<and>
   safe_eval env0 (ledF_S_text (state0\<lparr>ledF_S_text := ''48000''\<rparr>))
     (f_S (state0\<lparr>ledF_S_text := ''48000''\<rparr>)) = Inr 48000 \<and>
   (0::real) < 48000 \<and>
   f_S (snd (eventFilter env0 ''f_S'' (KeyPress Key_Return)
         (state0\<lparr>ledF_S_text := ''48000''\<rparr>))) = 48000 \<and>
   T_S (snd (eventFilter env0 ''f_S'' (KeyPress Key_Return)
         (state0\<lparr>ledF_S_text := ''48000''\<rparr>))) = 1 / 48000 \<and>
   f_max (snd (eventFilter env0 ''f_S'' (KeyPress Key_Return)
         (state0\<lparr>ledF_S_text := ''48000''\<rparr>))) = 48000 \<and>
   freqSpecsRange (snd (eventFilter env0 ''f_S'' (KeyPress Key_Return)
         (state0\<lparr>ledF_S_text := ''48000''\<rparr>))) = [0, 24000] \<and>
   sig_tx (snd (eventFilter env0 ''f_S'' (KeyPress Key_Return)
         (state0\<lparr>ledF_S_text := ''48000''\<rparr>))) = [view_changed ''f_S'']"
  using commit_accepted [of "KeyPress Key_Return" "state0\<lparr>ledF_S_text := ''48000''\<rparr>" env0 48000]
  by (simp add: state0_def env0_def spec_range_def)

text \<open>
  Claim C4, as the code has it. When \<open>safe_eval\<close> rejects the text of the field, a
  commit leaves \<open>f_S\<close> unchanged. If the evaluator rejects by raising, nothing in the
  shared dictionary changes. If it rejects by returning its fallback argument (the
  current \<open>f_S\<close>), lines 313--316 still run: \<open>T_S\<close> becomes \<open>1/f_S\<close>, \<open>f_max\<close> becomes
  \<open>f_S\<close> and the range is recomputed from the range selector; so the dictionary is
  unchanged whenever \<open>T_S\<close>, \<open>f_max\<close> and the range already agreed with \<open>f_S\<close> and the
  range selector before the commit.
\<close>

theorem commit_rejected_amended:
  assumes "is_commit ev w"
    and "raised (safe_eval p (ledF_S_text w) (f_S w)) \<or>
         safe_eval p (ledF_S_text w) (f_S w) = Inr (f_S w)"
  shows "f_S (snd (eventFilter p ''f_S'' ev w)) = f_S w \<and>
         (raised (safe_eval p (ledF_S_text w) (f_S w)) \<longrightarrow>
            fil.truncate (snd (eventFilter p ''f_S'' ev w)) = fil.truncate w) \<and>
         (\<not> raised (safe_eval p (ledF_S_text w) (f_S w)) \<and> f_S w \<noteq> 0 \<longrightarrow>
            T_S (snd (eventFilter p ''f_S'' ev w)) = 1 / f_S w \<and>
            f_max (snd (eventFilter p ''f_S'' ev w)) = f_S w \<and>
            freqSpecsRange (snd (eventFilter p ''f_S'' ev w))
              = spec_range (cmbFRange w) (f_S w)) \<and>
         (T_S w = 1 / f_S w \<and> f_max w = f_S w \<and> freqSpecsRangeType w = cmbFRange w \<and>
          freqSpecsRange w = spec_range (cmbFRange w) (f_max w) \<longrightarrow>
            fil.truncate (snd (eventFilter p ''f_S'' ev w)) = fil.truncate w)"
  using assms
  by (cases ev)
     (auto simp add: eventFilter_def store_entry_def raised_def freq_range_def spec_range_def
        emit_def Let_def fil.truncate_def split: sum.splits)

theorem commit_rejected_amended_witness:
  "is_commit FocusOut state_k \<and>
   safe_eval env0 (ledF_S_text state_k) (f_S state_k) = Inr (f_S state_k) \<and>
   f_S (snd (eventFilter env0 ''f_S'' FocusOut state_k)) = 1 \<and>
   T_S (snd (eventFilter env0 ''f_S'' FocusOut state_k)) = 1 \<and>
   f_max (snd (eventFilter env0 ''f_S'' FocusOut state_k)) = 1 \<and>
   is_commit (KeyPress Key_Enter) state0 \<and>
   raised (safe_eval env_raise (ledF_S_text state0) (f_S state0)) \<and>
   fil.truncate (snd (eventFilter env_raise ''f_S'' (KeyPress Key_Enter) state0))
     = fil.truncate state0 \<and>
   safe_eval env0 (ledF_S_text state0) (f_S state0) = Inr (f_S state0) \<and>
   T_S state0 = 1 / f_S state0 \<and> f_max state0 = f_S state0 \<and>
   freqSpecsRangeType state0 = cmbFRange state0 \<and>
   freqSpecsRange state0 = spec_range (cmbFRange state0) (f_max state0) \<and>
   fil.truncate (snd (eventFilter env0 ''f_S'' (KeyPress Key_Enter) state0))
     = fil.truncate state0"
  using commit_rejected_amended [of FocusOut state_k env0]
    commit_rejected_amended [of "KeyPress Key_Enter" state0 env_raise]
    commit_rejected_amended [of "KeyPress Key_Enter" state0 env0]
  by (simp add: env0_def env_raise_def state_k_def state0_def raised_def spec_range_def)

text \<open>
  Claim C4 as stated fails: the text \<open>abc\<close> is rejected, the evaluator returns the
  fallback 1, and the commit overwrites \<open>f_max\<close> (2048 before, 1 after) and the range
  (\<open>[0, 1024]\<close> before, \<open>[0, 1/2]\<close> after).
\<close>

theorem commit_rejected_changes_f_max:
  "is_commit FocusOut state_k \<and>
   safe_eval env0 (ledF_S_text state_k) (f_S state_k) = Inr (f_S state_k) \<and>
   f_max state_k = 2048 \<and>
   f_max (snd (eventFilter env0 ''f_S'' FocusOut state_k)) = 1 \<and>
   freqSpecsRange state_k = [0, 1024] \<and>
   freqSpecsRange (snd (eventFilter env0 ''f_S'' FocusOut state_k)) = [0, 1 / 2]"
  by (simp add: eventFilter_def store_entry_def freq_range_def emit_def Let_def env0_def
        state_k_def)

subsection \<open>The relation between \<open>T_S\<close> and \<open>f_S\<close>\<close>

lemma update_UI_T_S_inv:
  assumes "T_S_inv w \<or> currentText (cmbUnits w) \<in> normalized_units
             \<or> freq_specs_unit w \<in> normalized_units"
    and "currentText (cmbUnits w) \<noteq> ''f_Ny''"
  shows "T_S_inv (snd (update_UI p w))"
  using assms by (auto simp add: T_S_inv_def update_UI_f_S update_UI_T_S)

lemma store_entry_T_S_inv:
  assumes "T_S_inv w \<or> (spec_edited w \<and> accepted (safe_eval p (ledF_S_text w) (f_S w)))"
  shows "T_S_inv (snd (store_entry p w))"
proof (cases "spec_edited w")
  case False
  with assms show ?thesis by (simp add: store_entry_def)
next
  case True
  show ?thesis
  proof (cases "safe_eval p (ledF_S_text w) (f_S w)")
    case (Inl e)
    with True assms show ?thesis by (simp add: store_entry_def accepted_def)
  next
    case (Inr v)
    with True show ?thesis
      by (simp add: store_entry_def T_S_inv_def freq_range_def emit_def Let_def)
  qed
qed

lemma eventFilter_T_S_inv:
  assumes "T_S_inv w \<or> (is_commit e w \<and> accepted (safe_eval p (ledF_S_text w) (f_S w)))"
  shows "T_S_inv (snd (eventFilter p ''f_S'' e w))"
proof (cases e)
  case FocusIn
  with assms show ?thesis by (simp add: eventFilter_def T_S_inv_def)
next
  case (KeyPress k)
  show ?thesis
  proof (cases "k = Key_Return \<or> k = Key_Enter")
    case True
    have "T_S_inv (w\<lparr>spec_edited := True\<rparr>) \<or>
          (spec_edited (w\<lparr>spec_edited := True\<rparr>) \<and>
           accepted (safe_eval p (ledF_S_text (w\<lparr>spec_edited := True\<rparr>))
                       (f_S (w\<lparr>spec_edited := True\<rparr>))))"
      using assms KeyPress True by (simp add: T_S_inv_def)
    then have "T_S_inv (snd (store_entry p (w\<lparr>spec_edited := True\<rparr>)))"
      by (rule store_entry_T_S_inv)
    with KeyPress True show ?thesis by (simp add: eventFilter_def Let_def)
  next
    case False
    with KeyPress assms show ?thesis by (simp add: eventFilter_def Let_def T_S_inv_def)
  qed
next
  case FocusOut
  obtain r w1 where se: "store_entry p w = (r, w1)"
    by (cases "store_entry p w")
  from FocusOut assms have "T_S_inv (snd (store_entry p w))"
    by (simp add: store_entry_T_S_inv)
  with se have "T_S_inv w1" by simp
  with FocusOut se show ?thesis
    by (cases r) (simp_all add: eventFilter_def T_S_inv_def)
next
  case Other_event
  with assms show ?thesis by (simp add: eventFilter_def)
qed

text \<open>
  Claim C5, as the code has it. \<open>T_S == 1/f_S\<close> (for nonzero \<open>f_S\<close>) holds after every
  operation that does not run \<open>update_UI\<close> with \<open>f_Ny\<close> selected, provided it held before
  the operation or the operation rewrites \<open>T_S\<close>: the selection of \<open>f_S\<close> or \<open>k\<close>, the
  return from a normalized unit to an absolute one, and a commit of the field on which
  the evaluator returns. The range change, the sort toggle, \<open>lock_fs\<close>, the other
  events of the field and a change between absolute units write neither entry.
  Selecting \<open>f_Ny\<close> sets \<open>f_S = 2\<close> and \<open>T_S = 1\<close>.
\<close>

theorem T_S_invariant_amended:
  assumes "T_S_inv w \<or> rewrites_T_S p op w" and "\<not> selects_f_Ny op w"
  shows "T_S_inv (snd (run p op w))"
proof (cases op)
  case (Signal ev)
  show ?thesis
  proof (cases ev)
    case (cmbUnits_currentIndexChanged i)
    with Signal assms have
      "T_S_inv (w\<lparr>cmbUnits := i\<rparr>)
         \<or> currentText (cmbUnits (w\<lparr>cmbUnits := i\<rparr>)) \<in> normalized_units
         \<or> freq_specs_unit (w\<lparr>cmbUnits := i\<rparr>) \<in> normalized_units"
      and "currentText (cmbUnits (w\<lparr>cmbUnits := i\<rparr>)) \<noteq> ''f_Ny''"
      by (simp_all add: T_S_inv_def)
    then have "T_S_inv (snd (update_UI p (w\<lparr>cmbUnits := i\<rparr>)))"
      by (rule update_UI_T_S_inv)
    with Signal cmbUnits_currentIndexChanged show ?thesis by simp
  next
    case butLock_clicked
    with Signal assms have
      "T_S_inv (w\<lparr>butLock_checked := \<not> butLock_checked w\<rparr>)
         \<or> currentText (cmbUnits (w\<lparr>butLock_checked := \<not> butLock_checked w\<rparr>))
             \<in> normalized_units
         \<or> freq_specs_unit (w\<lparr>butLock_checked := \<not> butLock_checked w\<rparr>) \<in> normalized_units"
      and "currentText (cmbUnits (w\<lparr>butLock_checked := \<not> butLock_checked w\<rparr>)) \<noteq> ''f_Ny''"
      by (simp_all add: T_S_inv_def)
    then have "T_S_inv (snd (update_UI p (w\<lparr>butLock_checked := \<not> butLock_checked w\<rparr>)))"
      by (rule update_UI_T_S_inv)
    with Signal butLock_clicked show ?thesis by simp
  next
    case (cmbFRange_currentIndexChanged i d)
    with Signal assms show ?thesis
      by (simp add: T_S_inv_def freq_range_def emit_def Let_def)
  next
    case butSort_clicked
    with Signal assms show ?thesis
      by (simp add: T_S_inv_def store_sort_flag_def emit_def Let_def)
  qed
next
  case (Event e)
  with assms
  have "T_S_inv w \<or> (is_commit e w \<and> accepted (safe_eval p (ledF_S_text w) (f_S w)))"
    by simp
  then have "T_S_inv (snd (eventFilter p ''f_S'' e w))" by (rule eventFilter_T_S_inv)
  with Event show ?thesis by simp
next
  case (Lock b)
  with assms show ?thesis by (simp add: T_S_inv_def lock_fs_def emit_def Let_def)
qed

theorem T_S_invariant_amended_witness:
  "T_S_inv state0 \<and> rewrites_T_S env0 (Signal (cmbUnits_currentIndexChanged 0)) state0 \<and>
   \<not> selects_f_Ny (Signal (cmbUnits_currentIndexChanged 0)) state0 \<and>
   T_S_inv (snd (run env0 (Signal (cmbUnits_currentIndexChanged 0)) state0)) \<and>
   f_S (snd (run env0 (Signal (cmbUnits_currentIndexChanged 0)) state0)) = 1"
  using T_S_invariant_amended [of state0 env0 "Signal (cmbUnits_currentIndexChanged 0)"]
  by (simp add: T_S_inv_def state0_def currentText_simps normalized_units_def update_UI_f_S)

text \<open>
  Claim C5 as stated fails: selecting \<open>f_Ny\<close> leaves \<open>f_S = 2\<close>, defined and nonzero,
  and \<open>T_S = 1\<close>, which is not \<open>1/f_S\<close>.
\<close>

theorem f_Ny_breaks_T_S_invariant:
  "f_S (snd (run env0 (Signal (cmbUnits_currentIndexChanged 2)) state0)) = 2 \<and>
   T_S (snd (run env0 (Signal (cmbUnits_currentIndexChanged 2)) state0)) = 1 \<and>
   \<not> T_S_inv (snd (run env0 (Signal (cmbUnits_currentIndexChanged 2)) state0))"
  by (simp add: update_UI_f_S update_UI_T_S currentText_simps normalized_units_def T_S_inv_def)

end
